theory Spec2Isabelle
  imports Complex_Main "HOL-Library.Word" "HOL-Library.Multiset"
begin

section \<open>Selectors and specificity (css/selector.go)\<close>

text \<open>
  \<^verbatim>\<open>SelectorType\<close> is an enumeration; \<^verbatim>\<open>Selector\<close> is a struct whose \<^verbatim>\<open>Parts\<close> field
  holds the simple selectors of a combinator selector.  Go's \<^verbatim>\<open>int\<close> is modelled by
  \<^typ>\<open>int\<close>: the counters below are bounded by the number of selector parts.
\<close>

datatype SelectorType =
    SelectorUniversal
  | SelectorElement
  | SelectorClass
  | SelectorID
  | SelectorAttribute
  | SelectorDescendant
  | SelectorChild
  | SelectorAdjacent
  | SelectorSibling

datatype Selector = Selector
  (Type: SelectorType)
  (Element: string)
  (Class: string)
  (ID: string)
  (Attr: string)
  (AttrVal: string)
  (Parts: "Selector list")
  (PseudoClass: string)
  (IsChild: bool)

record Specificity =
  Inline :: int
  IDs :: int
  Classes :: int
  Elements :: int

definition zeroSpecificity :: Specificity where
  "zeroSpecificity = \<lparr>Inline = 0, IDs = 0, Classes = 0, Elements = 0\<rparr>"

text \<open>\<^verbatim>\<open>Specificity.Compare\<close>: 1, -1 or 0, field by field.\<close>

definition Compare :: "Specificity \<Rightarrow> Specificity \<Rightarrow> int" where
  "Compare s other =
     (if Inline s \<noteq> Inline other then (if Inline s > Inline other then 1 else -1)
      else if IDs s \<noteq> IDs other then (if IDs s > IDs other then 1 else -1)
      else if Classes s \<noteq> Classes other then (if Classes s > Classes other then 1 else -1)
      else if Elements s \<noteq> Elements other then (if Elements s > Elements other then 1 else -1)
      else 0)"

text \<open>
  \<^verbatim>\<open>Selector.CalculateSpecificity\<close>.  The \<^verbatim>\<open>switch\<close> has cases for ID, class and
  attribute, element and descendant selectors only; every other selector type leaves
  the zero value of \<^verbatim>\<open>spec\<close> untouched.
\<close>

definition addPart :: "Specificity \<Rightarrow> Specificity \<Rightarrow> Specificity" where
  "addPart spec partSpec =
     spec\<lparr>IDs := IDs spec + IDs partSpec,
          Classes := Classes spec + Classes partSpec,
          Elements := Elements spec + Elements partSpec\<rparr>"

fun CalculateSpecificity :: "Selector \<Rightarrow> Specificity" where
  "CalculateSpecificity (Selector ty el cl idn atr atv ps pc ic) =
     (case ty of
        SelectorID \<Rightarrow> zeroSpecificity\<lparr>IDs := 1\<rparr>
      | SelectorClass \<Rightarrow> zeroSpecificity\<lparr>Classes := 1\<rparr>
      | SelectorAttribute \<Rightarrow> zeroSpecificity\<lparr>Classes := 1\<rparr>
      | SelectorElement \<Rightarrow>
          (let s1 = (if el \<noteq> [] \<and> el \<noteq> ''*'' then zeroSpecificity\<lparr>Elements := 1\<rparr>
                     else zeroSpecificity);
               s2 = (if cl \<noteq> [] then s1\<lparr>Classes := 1\<rparr> else s1)
           in (if idn \<noteq> [] then s2\<lparr>IDs := 1\<rparr> else s2))
      | SelectorDescendant \<Rightarrow>
          foldl addPart zeroSpecificity (map CalculateSpecificity ps)
      | _ \<Rightarrow> zeroSpecificity)"


section \<open>Byte strings and the Go library\<close>

text \<open>
  A Go \<^verbatim>\<open>string\<close> is a sequence of bytes and is modelled by \<^typ>\<open>string\<close>.  The
  byte-exact functions of package \<^verbatim>\<open>strings\<close> are defined here.  The functions whose
  result depends on Unicode tables or on a number grammar (\<^verbatim>\<open>strings.ToLower\<close>,
  \<^verbatim>\<open>strings.TrimSpace\<close>, \<^verbatim>\<open>strings.Fields\<close>, \<^verbatim>\<open>strconv.ParseFloat\<close>), the conversion of
  an out-of-range \<^verbatim>\<open>float64\<close> to \<^verbatim>\<open>uint8\<close> and the matches of the attribute regular
  expression are not part of the repository; they are the fields of a record
  that every function using them receives as its first argument.  \<^verbatim>\<open>float64\<close> is
  modelled by \<^typ>\<open>real\<close>: rounding, infinities and NaN are outside the model.
\<close>

record golib =
  ToLower :: "string \<Rightarrow> string"
  TrimSpace :: "string \<Rightarrow> string"
  Fields :: "string \<Rightarrow> string list"
  ParseFloat :: "string \<Rightarrow> real option"
  toUint8 :: "real \<Rightarrow> 8 word"
  attrSubmatches :: "string \<Rightarrow> (string \<times> string) list"

definition HasPrefix :: "string \<Rightarrow> string \<Rightarrow> bool" where
  "HasPrefix s p = (take (length p) s = p)"

definition HasSuffix :: "string \<Rightarrow> string \<Rightarrow> bool" where
  "HasSuffix s p = (length p \<le> length s \<and> drop (length s - length p) s = p)"

definition TrimPrefix :: "string \<Rightarrow> string \<Rightarrow> string" where
  "TrimPrefix s p = (if HasPrefix s p then drop (length p) s else s)"

definition TrimSuffix :: "string \<Rightarrow> string \<Rightarrow> string" where
  "TrimSuffix s p = (if HasSuffix s p then take (length s - length p) s else s)"

text \<open>\<^verbatim>\<open>strings.Index\<close>: the index of the first occurrence, or -1.\<close>

fun Index :: "string \<Rightarrow> string \<Rightarrow> int" where
  "Index [] sub = (if sub = [] then 0 else -1)"
| "Index (c # cs) sub =
     (if HasPrefix (c # cs) sub then 0
      else (let r = Index cs sub in if r < 0 then -1 else r + 1))"

definition Contains :: "string \<Rightarrow> string \<Rightarrow> bool" where
  "Contains s sub = (Index s sub \<ge> 0)"

text \<open>\<^verbatim>\<open>strings.Split\<close> for a separator of one byte (the only use in the sources).\<close>

fun Split :: "string \<Rightarrow> char \<Rightarrow> string list" where
  "Split [] sep = [[]]"
| "Split (c # cs) sep =
     (if c = sep then [] # Split cs sep
      else (case Split cs sep of [] \<Rightarrow> [[c]] | h # t \<Rightarrow> (c # h) # t))"

text \<open>\<^verbatim>\<open>strings.ReplaceAll\<close> of one byte by another.\<close>

definition ReplaceAll :: "string \<Rightarrow> char \<Rightarrow> char \<Rightarrow> string" where
  "ReplaceAll s old new = map (\<lambda>c. if c = old then new else c) s"

text \<open>A Go slice expression \<^verbatim>\<open>s[i:j]\<close> with \<^verbatim>\<open>0 \<le> i \<le> j \<le> len(s)\<close>.\<close>

definition slice :: "string \<Rightarrow> nat \<Rightarrow> nat \<Rightarrow> string" where
  "slice s i j = take (j - i) (drop i s)"

section \<open>Declarations, rules and stylesheets (css/parser.go)\<close>

record Declaration =
  Property :: string
  Value :: string
  Important :: bool






section \<open>Computed styles (css/properties.go)\<close>

record RGBA =
  R :: "8 word"
  G :: "8 word"
  B :: "8 word"
  A :: "8 word"

record GradientStop =
  StopColor :: RGBA
  StopPosition :: real

record Gradient =
  IsLinear :: bool
  Angle :: real
  Stops :: "GradientStop list"

record ComputedStyle =
  Display :: string
  Visibility :: string
  FlexDirection :: string
  JustifyContent :: string
  AlignItems :: string
  AlignContent :: string
  FlexWrap :: string
  Gap :: real
  RowGap :: real
  ColumnGap :: real
  FlexGrow :: real
  FlexShrink :: real
  FlexBasis :: real
  AlignSelf :: string
  Order :: int
  GridTemplateColumns :: string
  GridTemplateRows :: string
  GridColumn :: string
  GridRow :: string
  GridColumnCount :: int
  Color :: RGBA
  BackgroundColor :: RGBA
  BackgroundGradient :: "Gradient option"
  FontSize :: real
  FontWeight :: int
  FontFamily :: string
  TextAlign :: string
  LineHeight :: real
  Width :: real
  Height :: real
  MinWidth :: real
  MinHeight :: real
  MaxWidth :: real
  MaxHeight :: real
  MarginTop :: real
  MarginRight :: real
  MarginBottom :: real
  MarginLeft :: real
  PaddingTop :: real
  PaddingRight :: real
  PaddingBottom :: real
  PaddingLeft :: real
  BorderTopWidth :: real
  BorderRightWidth :: real
  BorderBottomWidth :: real
  BorderLeftWidth :: real
  BorderColor :: RGBA
  BorderRadius :: real
  Position :: string
  Top :: real
  Right :: real
  Bottom :: real
  Left :: real
  ZIndex :: int





section \<open>DOM nodes (dom package)\<close>

datatype NodeType = NodeDocument | NodeElement | NodeText

datatype DisplayMode = DisplayBlock | DisplayInline | DisplayNone

text \<open>
  A \<^verbatim>\<open>*Node\<close> is an index into a store of nodes, so \<^verbatim>\<open>Children\<close> is a list of indices
  and \<^verbatim>\<open>Parent\<close> an optional index (\<^verbatim>\<open>nil\<close> is \<^const>\<open>None\<close>).  \<^verbatim>\<open>Attributes\<close> is a Go
  map; reading a \<^verbatim>\<open>nil\<close> map behaves like reading an empty one.  \<^verbatim>\<open>ComputedStyle\<close> holds
  a \<^verbatim>\<open>*css.ComputedStyle\<close> or \<^verbatim>\<open>nil\<close>.
\<close>

record Node =
  Type_n :: NodeType
  Tag_n :: string
  Content_n :: string
  Children_n :: "nat list"
  Parent_n :: "nat option"
  Display_n :: DisplayMode
  Attributes_n :: "string \<rightharpoonup> string"
  ComputedStyle_n :: "ComputedStyle option"


section \<open>The cascade (css/cascade.go)\<close>

record StyleEntry =
  Declarations_e :: "Declaration list"
  Specificity_e :: Specificity
  Order_e :: int
  Important_e :: bool









text \<open>The comparison function handed to \<^verbatim>\<open>sort.SliceStable\<close>.\<close>

definition cascadeLess :: "StyleEntry \<Rightarrow> StyleEntry \<Rightarrow> bool" where
  "cascadeLess a b =
     (if Important_e a \<noteq> Important_e b then \<not> Important_e a
      else (let cmp = Compare (Specificity_e a) (Specificity_e b) in
            if cmp \<noteq> 0 then cmp < 0 else Order_e a < Order_e b))"





text \<open>\<^verbatim>\<open>InheritFromParent\<close>; both pointers may be \<^verbatim>\<open>nil\<close>, and then nothing happens.\<close>

definition InheritFromParent :: "ComputedStyle option \<Rightarrow> ComputedStyle option \<Rightarrow> ComputedStyle option" where
  "InheritFromParent child parent =
     (case (child, parent) of
        (Some c, Some p) \<Rightarrow>
          (let c1 = (if FontSize c = 16 \<and> FontSize p \<noteq> 16 then c\<lparr>FontSize := FontSize p\<rparr> else c);
               c2 = (if FontWeight c1 = 400 \<and> FontWeight p \<noteq> 400
                     then c1\<lparr>FontWeight := FontWeight p\<rparr> else c1)
           in Some (c2\<lparr>Color := Color p\<rparr>))
      | _ \<Rightarrow> child)"

text \<open>
  \<^verbatim>\<open>applyStylesRecursive\<close> walks the subtree of a node.  The tree is given with its
  children in place of their indices; \<open>pstyle\<close> is the \<^verbatim>\<open>ComputedStyle\<close> field of the
  parent of the node at the time of the call (\<^const>\<open>None\<close> when there is no parent or the
  field is \<^verbatim>\<open>nil\<close>), and \<open>compute\<close> stands for \<^verbatim>\<open>ComputeStyles(node, stylesheets)\<close>.
\<close>

datatype DomTree = DomTree Node "DomTree list"

fun applyStylesRecursive ::
  "(Node \<Rightarrow> ComputedStyle) \<Rightarrow> ComputedStyle option \<Rightarrow> DomTree \<Rightarrow> DomTree" where
  "applyStylesRecursive compute pstyle (DomTree n kids) =
     (let n' = (if Type_n n = NodeElement
                then n\<lparr>ComputedStyle_n :=
                         (case pstyle of
                            None \<Rightarrow> Some (compute n)
                          | Some p \<Rightarrow> InheritFromParent (Some (compute n)) (Some p))\<rparr>
                else n)
      in DomTree n' (map (applyStylesRecursive compute (ComputedStyle_n n')) kids))"

section \<open>Parsing selectors (css/selector.go)\<close>

text \<open>\<^verbatim>\<open>strings.Trim\<close> with a cutset of ASCII bytes.\<close>

definition Trim :: "string \<Rightarrow> string \<Rightarrow> string" where
  "Trim s cutset =
     rev (dropWhile (\<lambda>c. c \<in> set cutset) (rev (dropWhile (\<lambda>c. c \<in> set cutset) s)))"

definition mkSelector :: "SelectorType \<Rightarrow> Selector" where
  "mkSelector ty = Selector ty [] [] [] [] [] [] [] False"

definition parseSimpleSelector :: "golib \<Rightarrow> string \<Rightarrow> Selector" where
  "parseSimpleSelector lib text0 =
     (let text1 = TrimSpace lib text0;
          idx = Index text1 '':'';
          pseudoClass = (if idx \<noteq> -1 then drop (nat idx + 1) text1 else []);
          text = (if idx \<noteq> -1 then take (nat idx) text1 else text1)
      in
      if text = ''*'' \<or> text = [] then
        Selector SelectorUniversal ''*'' [] [] [] [] [] pseudoClass False
      else if HasPrefix text ''#'' then
        Selector SelectorID [] [] (drop 1 text) [] [] [] pseudoClass False
      else if HasPrefix text ''.'' then
        Selector SelectorClass [] (drop 1 text) [] [] [] [] pseudoClass False
      else if Index text ''.'' > 0 then
        Selector SelectorElement (take (nat (Index text ''.'')) text)
          (drop (nat (Index text ''.'') + 1) text) [] [] [] [] pseudoClass False
      else if Index text ''#'' > 0 then
        Selector SelectorElement (take (nat (Index text ''#'')) text) []
          (drop (nat (Index text ''#'') + 1) text) [] [] [] pseudoClass False
      else if HasPrefix text ''['' \<and> HasSuffix text '']'' then
        (let content = slice text 1 (length text - 1);
             eqIdx = Index content ''=''
         in if eqIdx \<noteq> -1 then
              Selector SelectorAttribute [] [] [] (take (nat eqIdx) content)
                (Trim (drop (nat eqIdx + 1) content) [CHR 0x22, CHR 0x27]) [] pseudoClass False
            else
              Selector SelectorAttribute [] [] [] content [] [] pseudoClass False)
      else
        Selector SelectorElement (ToLower lib text) [] [] [] [] [] pseudoClass False)"

definition ParseSelector :: "golib \<Rightarrow> string \<Rightarrow> Selector" where
  "ParseSelector lib text0 =
     (let text = TrimSpace lib text0;
          childParts = map (parseSimpleSelector lib)
                         (filter (\<lambda>p. p \<noteq> []) (map (TrimSpace lib) (Split text CHR ''>'')));
          descParts = map (parseSimpleSelector lib)
                        (filter (\<lambda>p. p \<noteq> ''+'' \<and> p \<noteq> ''~'') (Fields lib text))
      in
      if Contains text ''>'' \<and> childParts \<noteq> [] then
        Selector SelectorChild [] [] [] [] [] childParts [] True
      else if Contains text '' '' \<and> \<not> HasPrefix text ''.'' \<and> \<not> HasPrefix text ''#''
              \<and> length (Fields lib text) > 1 \<and> descParts \<noteq> [] then
        Selector SelectorDescendant [] [] [] [] [] descParts [] False
      else parseSimpleSelector lib text)"

section \<open>The library on ASCII input\<close>

text \<open>
  On strings of ASCII bytes \<^verbatim>\<open>strings.ToLower\<close>, \<^verbatim>\<open>strings.TrimSpace\<close> and
  \<^verbatim>\<open>strings.Fields\<close> are the functions below; they are used to run the model on
  concrete inputs.  \<open>decimalFloat\<close> is \<^verbatim>\<open>strconv.ParseFloat\<close> on the strings
  \<^verbatim>\<open>[+-]digits[.digits]\<close> only, \<open>truncUint8\<close> is the conversion to \<^verbatim>\<open>uint8\<close> on the values
  from 0 to 255, and \<open>attrScan\<close> lists the submatches of the attribute expression
  \<^verbatim>\<open>(\w+)\s*=\s*["']([^"']*)["']\<close> from left to right.
\<close>

definition isSpace :: "char \<Rightarrow> bool" where
  "isSpace c = (c \<in> set [CHR 0x09, CHR 0x0A, CHR 0x0B, CHR 0x0C, CHR 0x0D, CHR 0x20])"

definition lowerChar :: "char \<Rightarrow> char" where
  "lowerChar c = (let n = (of_char c :: nat) in if 65 \<le> n \<and> n \<le> 90 then char_of (n + 32) else c)"

definition asciiToLower :: "string \<Rightarrow> string" where
  "asciiToLower s = map lowerChar s"

definition asciiTrimSpace :: "string \<Rightarrow> string" where
  "asciiTrimSpace s = rev (dropWhile isSpace (rev (dropWhile isSpace s)))"

fun fieldsFrom :: "string \<Rightarrow> string \<Rightarrow> string list" where
  "fieldsFrom cur [] = (if cur = [] then [] else [cur])"
| "fieldsFrom cur (c # cs) =
     (if isSpace c then (if cur = [] then fieldsFrom [] cs else cur # fieldsFrom [] cs)
      else fieldsFrom (cur @ [c]) cs)"

definition asciiFields :: "string \<Rightarrow> string list" where
  "asciiFields s = fieldsFrom [] s"

definition isDigit :: "char \<Rightarrow> bool" where
  "isDigit c = (let n = (of_char c :: nat) in 48 \<le> n \<and> n \<le> 57)"

definition digitsValue :: "string \<Rightarrow> nat" where
  "digitsValue ds = foldl (\<lambda>acc c. 10 * acc + (of_char c - 48)) 0 ds"

definition unsignedDecimal :: "string \<Rightarrow> real option" where
  "unsignedDecimal s =
     (let ip = takeWhile isDigit s; rest = drop (length ip) s in
      if rest = [] then (if ip = [] then None else Some (real (digitsValue ip)))
      else if hd rest = CHR ''.'' \<and> list_all isDigit (tl rest) \<and> (ip \<noteq> [] \<or> tl rest \<noteq> [])
        then Some (real (digitsValue ip) + real (digitsValue (tl rest)) / 10 ^ length (tl rest))
      else None)"

definition decimalFloat :: "string \<Rightarrow> real option" where
  "decimalFloat s =
     (case s of
        [] \<Rightarrow> None
      | c # cs \<Rightarrow>
          if c = CHR ''-'' then map_option uminus (unsignedDecimal cs)
          else if c = CHR ''+'' then unsignedDecimal cs
          else unsignedDecimal s)"

definition truncUint8 :: "real \<Rightarrow> 8 word" where
  "truncUint8 x = word_of_int (if x \<ge> 0 then \<lfloor>x\<rfloor> else \<lceil>x\<rceil>)"

definition isWordChar :: "char \<Rightarrow> bool" where
  "isWordChar c =
     (let n = (of_char c :: nat) in
      (48 \<le> n \<and> n \<le> 57) \<or> (65 \<le> n \<and> n \<le> 90) \<or> (97 \<le> n \<and> n \<le> 122) \<or> n = 95)"

definition isReSpace :: "char \<Rightarrow> bool" where
  "isReSpace c = (c \<in> set [CHR 0x09, CHR 0x0A, CHR 0x0C, CHR 0x0D, CHR 0x20])"

definition isQuote :: "char \<Rightarrow> bool" where
  "isQuote c = (c = CHR 0x22 \<or> c = CHR 0x27)"

text \<open>A match of the attribute expression at the start of \<open>s\<close>: name, value, rest.\<close>

definition attrMatchAt :: "string \<Rightarrow> (string \<times> string \<times> string) option" where
  "attrMatchAt s =
     (let name = takeWhile isWordChar s;
          r1 = dropWhile isReSpace (drop (length name) s) in
      if name = [] then None
      else case r1 of
        [] \<Rightarrow> None
      | e # r2 \<Rightarrow>
          if e \<noteq> CHR ''='' then None
          else (case dropWhile isReSpace r2 of
                  [] \<Rightarrow> None
                | q # r3 \<Rightarrow>
                    if \<not> isQuote q then None
                    else (let v = takeWhile (\<lambda>c. \<not> isQuote c) r3 in
                          case drop (length v) r3 of
                            [] \<Rightarrow> None
                          | q2 # r4 \<Rightarrow> Some (name, v, r4))))"

function attrScan :: "string \<Rightarrow> (string \<times> string) list" where
  "attrScan [] = []"
| "attrScan (c # cs) =
     (case attrMatchAt (c # cs) of
        None \<Rightarrow> attrScan cs
      | Some (name, v, rest) \<Rightarrow>
          (name, v) # (if length rest \<le> length cs then attrScan rest else []))"
  by pat_completeness auto
termination
  by (relation "measure length") auto

definition asciiLib :: golib where
  "asciiLib = \<lparr>ToLower = asciiToLower, TrimSpace = asciiTrimSpace, Fields = asciiFields,
               ParseFloat = decimalFloat, toUint8 = truncUint8, attrSubmatches = attrScan\<rparr>"

section \<open>The cascade order in the words of the specification\<close>

text \<open>
  Specificity is ordered lexicographically in the order inline, ids, classes,
  elements.  An entry \<open>b\<close> overrides an entry \<open>a\<close> when \<open>b\<close> is important and \<open>a\<close> is not, or,
  at equal importance, when \<open>b\<close> has the higher specificity, or the same specificity
  and the later place in the source.
\<close>

definition specLess :: "Specificity \<Rightarrow> Specificity \<Rightarrow> bool" where
  "specLess s t =
     (Inline s < Inline t \<or> (Inline s = Inline t \<and>
       (IDs s < IDs t \<or> (IDs s = IDs t \<and>
         (Classes s < Classes t \<or> (Classes s = Classes t \<and> Elements s < Elements t))))))"

definition specEq :: "Specificity \<Rightarrow> Specificity \<Rightarrow> bool" where
  "specEq s t =
     (Inline s = Inline t \<and> IDs s = IDs t \<and> Classes s = Classes t \<and> Elements s = Elements t)"

definition overrides :: "StyleEntry \<Rightarrow> StyleEntry \<Rightarrow> bool" where
  "overrides b a =
     ((Important_e b \<and> \<not> Important_e a) \<or>
      (Important_e b = Important_e a \<and>
        (specLess (Specificity_e a) (Specificity_e b) \<or>
         (specEq (Specificity_e a) (Specificity_e b) \<and> Order_e a < Order_e b))))"


section \<open>Example inputs\<close>



section \<open>Lengths (gocko/css/values/length.go)\<close>

datatype LengthUnit =
    UnitPx | UnitEm | UnitRem | UnitPercent | UnitVw | UnitVh | UnitVmin | UnitVmax
  | UnitCh | UnitEx | UnitPt | UnitCm | UnitMm | UnitIn | UnitAuto | UnitNone

record Length =
  Value_len :: real
  Unit_len :: LengthUnit

definition Zero :: Length where
  "Zero = \<lparr>Value_len = 0, Unit_len = UnitPx\<rparr>"

definition Auto :: Length where
  "Auto = \<lparr>Value_len = 0, Unit_len = UnitAuto\<rparr>"

definition Px :: "real \<Rightarrow> Length" where
  "Px v = \<lparr>Value_len = v, Unit_len = UnitPx\<rparr>"

definition IsAuto :: "Length \<Rightarrow> bool" where
  "IsAuto l = (Unit_len l = UnitAuto)"

record ResolveContext =
  FontSize_ctx :: real
  RootFontSize_ctx :: real
  ParentWidth_ctx :: real
  ParentHeight_ctx :: real
  ViewportWidth_ctx :: real
  ViewportHeight_ctx :: real
  CharWidth_ctx :: real
  XHeight_ctx :: real

definition DefaultContext :: ResolveContext where
  "DefaultContext =
     \<lparr>FontSize_ctx = 16, RootFontSize_ctx = 16, ParentWidth_ctx = 1024, ParentHeight_ctx = 768,
      ViewportWidth_ctx = 1024, ViewportHeight_ctx = 768, CharWidth_ctx = 8, XHeight_ctx = 8\<rparr>"

text \<open>\<^verbatim>\<open>Length.Resolve\<close>, one equation per \<^verbatim>\<open>case\<close> of the \<^verbatim>\<open>switch\<close>.\<close>

definition Resolve :: "Length \<Rightarrow> ResolveContext \<Rightarrow> real" where
  "Resolve l ctx =
     (case Unit_len l of
        UnitPx \<Rightarrow> Value_len l
      | UnitEm \<Rightarrow> Value_len l * FontSize_ctx ctx
      | UnitRem \<Rightarrow> Value_len l * RootFontSize_ctx ctx
      | UnitPercent \<Rightarrow> Value_len l / 100 * ParentWidth_ctx ctx
      | UnitVw \<Rightarrow> Value_len l / 100 * ViewportWidth_ctx ctx
      | UnitVh \<Rightarrow> Value_len l / 100 * ViewportHeight_ctx ctx
      | UnitVmin \<Rightarrow>
          Value_len l / 100 *
            (if ViewportHeight_ctx ctx < ViewportWidth_ctx ctx then ViewportHeight_ctx ctx
             else ViewportWidth_ctx ctx)
      | UnitVmax \<Rightarrow>
          Value_len l / 100 *
            (if ViewportHeight_ctx ctx > ViewportWidth_ctx ctx then ViewportHeight_ctx ctx
             else ViewportWidth_ctx ctx)
      | UnitCh \<Rightarrow> Value_len l * CharWidth_ctx ctx
      | UnitEx \<Rightarrow> Value_len l * XHeight_ctx ctx
      | UnitPt \<Rightarrow> Value_len l * 96 / 72
      | UnitCm \<Rightarrow> Value_len l * 96 / (254 / 100)
      | UnitMm \<Rightarrow> Value_len l * 96 / (254 / 10)
      | UnitIn \<Rightarrow> Value_len l * 96
      | UnitAuto \<Rightarrow> 0
      | UnitNone \<Rightarrow> 0)"

definition ResolveHeight :: "Length \<Rightarrow> ResolveContext \<Rightarrow> real" where
  "ResolveHeight l ctx =
     (if Unit_len l = UnitPercent then Value_len l / 100 * ParentHeight_ctx ctx
      else Resolve l ctx)"

text \<open>
  \<^verbatim>\<open>ParseLength\<close> returns a length and an error.  It walks the Go map \<^verbatim>\<open>units\<close> with
  \<^verbatim>\<open>range\<close>, whose order is not specified: the order \<open>us\<close> of the walk is an argument,
  some arrangement of \<open>unitsTable\<close>.
\<close>

datatype LengthError = InvalidLengthValue string | InvalidLength string

definition unitsTable :: "(string \<times> LengthUnit) list" where
  "unitsTable =
     [(''px'', UnitPx), (''em'', UnitEm), (''rem'', UnitRem), (''%'', UnitPercent),
      (''vw'', UnitVw), (''vh'', UnitVh), (''vmin'', UnitVmin), (''vmax'', UnitVmax),
      (''ch'', UnitCh), (''ex'', UnitEx), (''pt'', UnitPt), (''cm'', UnitCm),
      (''mm'', UnitMm), (''in'', UnitIn)]"

fun parseWithUnits :: "golib \<Rightarrow> string \<Rightarrow> (string \<times> LengthUnit) list \<Rightarrow> Length \<times> LengthError option" where
  "parseWithUnits lib s [] =
     (case ParseFloat lib s of
        None \<Rightarrow> (Zero, Some (InvalidLength s))
      | Some v \<Rightarrow> (Px v, None))"
| "parseWithUnits lib s ((suffix, unit) # us) =
     (if HasSuffix s suffix then
        (case ParseFloat lib (TrimSuffix s suffix) of
           None \<Rightarrow> (Zero, Some (InvalidLengthValue s))
         | Some v \<Rightarrow> (\<lparr>Value_len = v, Unit_len = unit\<rparr>, None))
      else parseWithUnits lib s us)"

definition ParseLength :: "golib \<Rightarrow> (string \<times> LengthUnit) list \<Rightarrow> string \<Rightarrow> Length \<times> LengthError option" where
  "ParseLength lib us s0 =
     (let s = TrimSpace lib (ToLower lib s0) in
      if s = [] \<or> s = ''0'' then (Zero, None)
      else if s = ''auto'' then (Auto, None)
      else if s = ''none'' then (\<lparr>Value_len = 0, Unit_len = UnitNone\<rparr>, None)
      else parseWithUnits lib s us)"

section \<open>Colours and computed styles of the layout engine (gocko/css/values)\<close>

record Color =
  R_c :: "8 word"
  G_c :: "8 word"
  B_c :: "8 word"
  A_c :: "8 word"

definition Transparent :: Color where
  "Transparent = \<lparr>R_c = 0, G_c = 0, B_c = 0, A_c = 0\<rparr>"

definition Black :: Color where
  "Black = \<lparr>R_c = 0, G_c = 0, B_c = 0, A_c = 255\<rparr>"

text \<open>
  \<^verbatim>\<open>values.ComputedStyle\<close>, with every field of the source; the fields that
  \<^verbatim>\<open>NewComputedStyle\<close> does not list have Go's zero value.
\<close>

record VComputedStyle =
  Width_v :: Length
  Height_v :: Length
  MinWidth_v :: Length
  MaxWidth_v :: Length
  MinHeight_v :: Length
  MaxHeight_v :: Length
  MarginTop_v :: Length
  MarginRight_v :: Length
  MarginBottom_v :: Length
  MarginLeft_v :: Length
  PaddingTop_v :: Length
  PaddingRight_v :: Length
  PaddingBottom_v :: Length
  PaddingLeft_v :: Length
  BorderTopWidth_v :: Length
  BorderRightWidth_v :: Length
  BorderBottomWidth_v :: Length
  BorderLeftWidth_v :: Length
  BorderTopColor_v :: Color
  BorderRightColor_v :: Color
  BorderBottomColor_v :: Color
  BorderLeftColor_v :: Color
  BorderTopStyle_v :: string
  BorderRightStyle_v :: string
  BorderBottomStyle_v :: string
  BorderLeftStyle_v :: string
  BorderTopLeftRadius_v :: Length
  BorderTopRightRadius_v :: Length
  BorderBottomRightRadius_v :: Length
  BorderBottomLeftRadius_v :: Length
  BoxSizing_v :: string
  Display_v :: string
  Position_v :: string
  Top_v :: Length
  Right_v :: Length
  Bottom_v :: Length
  Left_v :: Length
  FlexDirection_v :: string
  FlexWrap_v :: string
  JustifyContent_v :: string
  AlignItems_v :: string
  AlignContent_v :: string
  Gap_v :: Length
  FlexGrow_v :: real
  FlexShrink_v :: real
  FlexBasis_v :: Length
  AlignSelf_v :: string
  Order_v :: int
  OverflowX_v :: string
  OverflowY_v :: string
  ZIndex_v :: int
  ZIndexSet_v :: bool
  Color_v :: Color
  FontFamily_v :: string
  FontSize_v :: real
  FontWeight_v :: int
  FontStyle_v :: string
  LineHeight_v :: real
  LineHeightUnit_v :: string
  TextAlign_v :: string
  TextDecoration_v :: string
  TextTransform_v :: string
  LetterSpacing_v :: Length
  WordSpacing_v :: Length
  WhiteSpace_v :: string
  BackgroundColor_v :: Color
  BackgroundImage_v :: string
  BackgroundSize_v :: string
  BackgroundPosition_v :: string
  BackgroundRepeat_v :: string
  Opacity_v :: real
  Visibility_v :: string
  BoxShadow_v :: string
  Cursor_v :: string
  Transform_v :: string
  ListStyleType_v :: string
  ListStylePosition_v :: string
  BorderCollapse_v :: string
  BorderSpacing_v :: Length

definition NewComputedStyle_v :: VComputedStyle where
  "NewComputedStyle_v =
     \<lparr>Width_v = Auto,
      Height_v = Auto,
      MinWidth_v = Zero,
      MaxWidth_v = \<lparr>Value_len = 0, Unit_len = UnitNone\<rparr>,
      MinHeight_v = Zero,
      MaxHeight_v = \<lparr>Value_len = 0, Unit_len = UnitNone\<rparr>,
      MarginTop_v = Zero,
      MarginRight_v = Zero,
      MarginBottom_v = Zero,
      MarginLeft_v = Zero,
      PaddingTop_v = Zero,
      PaddingRight_v = Zero,
      PaddingBottom_v = Zero,
      PaddingLeft_v = Zero,
      BorderTopWidth_v = Zero,
      BorderRightWidth_v = Zero,
      BorderBottomWidth_v = Zero,
      BorderLeftWidth_v = Zero,
      BorderTopColor_v = Transparent,
      BorderRightColor_v = Transparent,
      BorderBottomColor_v = Transparent,
      BorderLeftColor_v = Transparent,
      BorderTopStyle_v = [],
      BorderRightStyle_v = [],
      BorderBottomStyle_v = [],
      BorderLeftStyle_v = [],
      BorderTopLeftRadius_v = Zero,
      BorderTopRightRadius_v = Zero,
      BorderBottomRightRadius_v = Zero,
      BorderBottomLeftRadius_v = Zero,
      BoxSizing_v = ''content-box'',
      Display_v = ''inline'',
      Position_v = ''static'',
      Top_v = Zero,
      Right_v = Zero,
      Bottom_v = Zero,
      Left_v = Zero,
      FlexDirection_v = ''row'',
      FlexWrap_v = ''nowrap'',
      JustifyContent_v = ''flex-start'',
      AlignItems_v = ''stretch'',
      AlignContent_v = ''stretch'',
      Gap_v = Zero,
      FlexGrow_v = 0,
      FlexShrink_v = 1,
      FlexBasis_v = Auto,
      AlignSelf_v = ''auto'',
      Order_v = 0,
      OverflowX_v = ''visible'',
      OverflowY_v = ''visible'',
      ZIndex_v = 0,
      ZIndexSet_v = False,
      Color_v = Black,
      FontFamily_v = ''sans-serif'',
      FontSize_v = 16,
      FontWeight_v = 400,
      FontStyle_v = ''normal'',
      LineHeight_v = 12 / 10,
      LineHeightUnit_v = ''number'',
      TextAlign_v = ''start'',
      TextDecoration_v = ''none'',
      TextTransform_v = ''none'',
      LetterSpacing_v = Zero,
      WordSpacing_v = Zero,
      WhiteSpace_v = ''normal'',
      BackgroundColor_v = Transparent,
      BackgroundImage_v = [],
      BackgroundSize_v = [],
      BackgroundPosition_v = [],
      BackgroundRepeat_v = [],
      Opacity_v = 1,
      Visibility_v = ''visible'',
      BoxShadow_v = [],
      Cursor_v = ''auto'',
      Transform_v = [],
      ListStyleType_v = ''disc'',
      ListStylePosition_v = ''outside'',
      BorderCollapse_v = ''separate'',
      BorderSpacing_v = Zero\<rparr>"

section \<open>The box model (package layout)\<close>

record BoxDimensions =
  ContentWidth_b :: real
  ContentHeight_b :: real
  PaddingTop_b :: real
  PaddingRight_b :: real
  PaddingBottom_b :: real
  PaddingLeft_b :: real
  BorderTop_b :: real
  BorderRight_b :: real
  BorderBottom_b :: real
  BorderLeft_b :: real
  MarginTop_b :: real
  MarginRight_b :: real
  MarginBottom_b :: real
  MarginLeft_b :: real
  X_b :: real
  Y_b :: real

definition NewBoxDimensions :: BoxDimensions where
  "NewBoxDimensions =
     \<lparr>ContentWidth_b = 0, ContentHeight_b = 0,
      PaddingTop_b = 0, PaddingRight_b = 0, PaddingBottom_b = 0, PaddingLeft_b = 0,
      BorderTop_b = 0, BorderRight_b = 0, BorderBottom_b = 0, BorderLeft_b = 0,
      MarginTop_b = 0, MarginRight_b = 0, MarginBottom_b = 0, MarginLeft_b = 0,
      X_b = 0, Y_b = 0\<rparr>"

definition PaddingWidth :: "BoxDimensions \<Rightarrow> real" where
  "PaddingWidth b = PaddingLeft_b b + PaddingRight_b b"

definition PaddingHeight :: "BoxDimensions \<Rightarrow> real" where
  "PaddingHeight b = PaddingTop_b b + PaddingBottom_b b"

definition BorderWidth :: "BoxDimensions \<Rightarrow> real" where
  "BorderWidth b = BorderLeft_b b + BorderRight_b b"

definition BorderHeight :: "BoxDimensions \<Rightarrow> real" where
  "BorderHeight b = BorderTop_b b + BorderBottom_b b"

definition MarginWidth :: "BoxDimensions \<Rightarrow> real" where
  "MarginWidth b = MarginLeft_b b + MarginRight_b b"

definition boxContext :: "VComputedStyle \<Rightarrow> real \<Rightarrow> real \<Rightarrow> ResolveContext" where
  "boxContext style containingWidth containingHeight =
     \<lparr>FontSize_ctx = FontSize_v style, RootFontSize_ctx = 16,
      ParentWidth_ctx = containingWidth, ParentHeight_ctx = containingHeight,
      ViewportWidth_ctx = 1024, ViewportHeight_ctx = 768,
      CharWidth_ctx = FontSize_v style * (55 / 100), XHeight_ctx = FontSize_v style * (5 / 10)\<rparr>"

text \<open>The four stages of \<^verbatim>\<open>ComputeBoxDimensions\<close>, in the order of the source.\<close>

definition resolveEdges :: "VComputedStyle \<Rightarrow> ResolveContext \<Rightarrow> BoxDimensions" where
  "resolveEdges style ctx =
     NewBoxDimensions
       \<lparr>MarginTop_b := Resolve (MarginTop_v style) ctx,
        MarginRight_b := Resolve (MarginRight_v style) ctx,
        MarginBottom_b := Resolve (MarginBottom_v style) ctx,
        MarginLeft_b := Resolve (MarginLeft_v style) ctx,
        PaddingTop_b := Resolve (PaddingTop_v style) ctx,
        PaddingRight_b := Resolve (PaddingRight_v style) ctx,
        PaddingBottom_b := Resolve (PaddingBottom_v style) ctx,
        PaddingLeft_b := Resolve (PaddingLeft_v style) ctx,
        BorderTop_b := Resolve (BorderTopWidth_v style) ctx,
        BorderRight_b := Resolve (BorderRightWidth_v style) ctx,
        BorderBottom_b := Resolve (BorderBottomWidth_v style) ctx,
        BorderLeft_b := Resolve (BorderLeftWidth_v style) ctx\<rparr>"

definition contentWidthStage :: "VComputedStyle \<Rightarrow> ResolveContext \<Rightarrow> real \<Rightarrow> BoxDimensions \<Rightarrow> BoxDimensions" where
  "contentWidthStage style ctx containingWidth box =
     (let b1 =
        (if IsAuto (Width_v style) then
           box\<lparr>ContentWidth_b :=
                 containingWidth - MarginWidth box - BorderWidth box - PaddingWidth box\<rparr>
         else
           (let resolvedWidth = Resolve (Width_v style) ctx in
            if BoxSizing_v style = ''border-box'' then
              (let w = resolvedWidth - PaddingWidth box - BorderWidth box in
               box\<lparr>ContentWidth_b := (if w < 0 then 0 else w)\<rparr>)
            else box\<lparr>ContentWidth_b := resolvedWidth\<rparr>));
          b2 =
        (if Unit_len (MinWidth_v style) \<noteq> UnitNone
            \<and> ContentWidth_b b1 < Resolve (MinWidth_v style) ctx
         then b1\<lparr>ContentWidth_b := Resolve (MinWidth_v style) ctx\<rparr> else b1)
      in
        (if Unit_len (MaxWidth_v style) \<noteq> UnitNone
            \<and> ContentWidth_b b2 > Resolve (MaxWidth_v style) ctx
         then b2\<lparr>ContentWidth_b := Resolve (MaxWidth_v style) ctx\<rparr> else b2))"

definition baseContentHeight :: "VComputedStyle \<Rightarrow> ResolveContext \<Rightarrow> BoxDimensions \<Rightarrow> BoxDimensions" where
  "baseContentHeight style ctx box =
     (if IsAuto (Height_v style) then box\<lparr>ContentHeight_b := 0\<rparr>
      else
        (let resolvedHeight = ResolveHeight (Height_v style) ctx in
         if BoxSizing_v style = ''border-box'' then
           (let h = resolvedHeight - PaddingHeight box - BorderHeight box in
            box\<lparr>ContentHeight_b := (if h < 0 then 0 else h)\<rparr>)
         else box\<lparr>ContentHeight_b := resolvedHeight\<rparr>))"

definition clampContentHeight :: "VComputedStyle \<Rightarrow> ResolveContext \<Rightarrow> BoxDimensions \<Rightarrow> BoxDimensions" where
  "clampContentHeight style ctx b1 =
     (let b2 =
        (if Unit_len (MinHeight_v style) \<noteq> UnitNone
            \<and> ContentHeight_b b1 < ResolveHeight (MinHeight_v style) ctx
         then b1\<lparr>ContentHeight_b := ResolveHeight (MinHeight_v style) ctx\<rparr> else b1)
      in
        (if Unit_len (MaxHeight_v style) \<noteq> UnitNone
            \<and> ContentHeight_b b2 > ResolveHeight (MaxHeight_v style) ctx
         then b2\<lparr>ContentHeight_b := ResolveHeight (MaxHeight_v style) ctx\<rparr> else b2))"

definition ComputeBoxDimensions :: "VComputedStyle \<Rightarrow> real \<Rightarrow> real \<Rightarrow> BoxDimensions" where
  "ComputeBoxDimensions style containingWidth containingHeight =
     (let ctx = boxContext style containingWidth containingHeight in
      clampContentHeight style ctx
        (baseContentHeight style ctx
           (contentWidthStage style ctx containingWidth (resolveEdges style ctx))))"

definition SetContentHeight :: "BoxDimensions \<Rightarrow> real \<Rightarrow> BoxDimensions" where
  "SetContentHeight b height = b\<lparr>ContentHeight_b := height\<rparr>"

section \<open>Properties: sorting and the cascade\<close>








lemma Compare_less: "Compare s t < 0 \<longleftrightarrow> specLess s t"
  by (auto simp: Compare_def specLess_def)

lemma Compare_eq: "Compare s t = 0 \<longleftrightarrow> specEq s t"
  by (auto simp: Compare_def specEq_def)

lemma specLess_not_specEq: "specLess s t \<Longrightarrow> \<not> specEq s t"
  by (auto simp: specLess_def specEq_def)

lemma cascadeLess_overrides: "cascadeLess a b \<longleftrightarrow> overrides b a"
proof (cases "Important_e a = Important_e b")
  case True
  show ?thesis
  proof (cases "Compare (Specificity_e a) (Specificity_e b) = 0")
    case eq: True
    then have "specEq (Specificity_e a) (Specificity_e b)" by (simp add: Compare_eq)
    then show ?thesis
      using True eq specLess_not_specEq by (auto simp: cascadeLess_def overrides_def)
  next
    case False
    then have "\<not> specEq (Specificity_e a) (Specificity_e b)" by (simp add: Compare_eq)
    then show ?thesis
      using True False by (auto simp: cascadeLess_def overrides_def Let_def Compare_less)
  qed
next
  case False
  then show ?thesis by (auto simp: cascadeLess_def overrides_def)
qed

















section \<open>Properties: specificity of combinator selectors\<close>

lemma CalculateSpecificity_ID:
  "Type s = SelectorID \<Longrightarrow> CalculateSpecificity s = zeroSpecificity\<lparr>IDs := 1\<rparr>"
  by (cases s) simp

lemma CalculateSpecificity_Class:
  "Type s = SelectorClass \<Longrightarrow> CalculateSpecificity s = zeroSpecificity\<lparr>Classes := 1\<rparr>"
  by (cases s) simp

lemma CalculateSpecificity_Element:
  assumes "Type s = SelectorElement" "Element s \<noteq> []" "Element s \<noteq> ''*''"
  shows "Inline (CalculateSpecificity s) = 0 \<and> IDs (CalculateSpecificity s) \<ge> 0
         \<and> Classes (CalculateSpecificity s) \<ge> 0 \<and> Elements (CalculateSpecificity s) = 1"
proof (cases s)
  case (Selector ty el cl idn atr atv ps pc ic)
  then have "ty = SelectorElement" "el \<noteq> []" "el \<noteq> ''*''" using assms by simp_all
  then show ?thesis
    unfolding Selector by (simp add: Let_def zeroSpecificity_def)
qed

lemma Compare_zero_positive:
  assumes "Inline s = 0" "IDs s \<ge> 0" "Classes s \<ge> 0" "Elements s \<ge> 0"
      and "IDs s > 0 \<or> Classes s > 0 \<or> Elements s > 0"
  shows "Compare s zeroSpecificity = 1"
  using assms by (simp add: Compare_def zeroSpecificity_def) linarith

lemma Compare_simple_zero:
  assumes "Type simple = SelectorID \<or> Type simple = SelectorClass
           \<or> (Type simple = SelectorElement \<and> Element simple \<noteq> [] \<and> Element simple \<noteq> ''*'')"
  shows "Compare (CalculateSpecificity simple) zeroSpecificity = 1"
proof -
  consider "Type simple = SelectorID" | "Type simple = SelectorClass"
    | "Type simple = SelectorElement" "Element simple \<noteq> []" "Element simple \<noteq> ''*''"
    using assms by blast
  then show ?thesis
  proof cases
    case 1
    show ?thesis
      by (rule Compare_zero_positive) (simp_all add: CalculateSpecificity_ID [OF 1] zeroSpecificity_def)
  next
    case 2
    show ?thesis
      by (rule Compare_zero_positive) (simp_all add: CalculateSpecificity_Class [OF 2] zeroSpecificity_def)
  next
    case 3
    show ?thesis
      using CalculateSpecificity_Element [OF 3] by (intro Compare_zero_positive) simp_all
  qed
qed

lemma Compare_zero_simple:
  assumes "Type simple = SelectorID \<or> Type simple = SelectorClass
           \<or> (Type simple = SelectorElement \<and> Element simple \<noteq> [] \<and> Element simple \<noteq> ''*'')"
  shows "Compare zeroSpecificity (CalculateSpecificity simple) = -1"
proof -
  have "Compare (CalculateSpecificity simple) zeroSpecificity = 1"
    using assms by (rule Compare_simple_zero)
  then show ?thesis
    by (simp add: Compare_def zeroSpecificity_def split: if_splits)
qed

text \<open>
  Claim C10.  A selector of type \<^verbatim>\<open>SelectorChild\<close> has the zero specificity whatever
  its parts are, whereas a descendant selector has the sum of the specificities of
  its parts.  Hence an ID selector, a class selector or a type selector (an element
  selector with a name other than \<^verbatim>\<open>*\<close>) compares greater than any child-combinator
  selector, and at equal importance its entry is sorted after, and overrides, the
  entry of the child-combinator selector.  \<^verbatim>\<open>ParseSelector\<close> returns a selector of type
  \<^verbatim>\<open>SelectorChild\<close> for every text that contains \<^verbatim>\<open>>\<close> and has a non-blank part.
\<close>

theorem child_combinator_specificity:
  assumes "Type child = SelectorChild"
      and "Type simple = SelectorID \<or> Type simple = SelectorClass
           \<or> (Type simple = SelectorElement \<and> Element simple \<noteq> [] \<and> Element simple \<noteq> ''*'')"
  shows "CalculateSpecificity child = zeroSpecificity
       \<and> Compare (CalculateSpecificity simple) (CalculateSpecificity child) = 1
       \<and> (\<forall>a b. Specificity_e a = CalculateSpecificity child
                \<and> Specificity_e b = CalculateSpecificity simple
                \<and> Important_e a = Important_e b \<longrightarrow> cascadeLess a b \<and> overrides b a)
       \<and> (\<forall>d. Type d = SelectorDescendant \<longrightarrow>
             CalculateSpecificity d
               = foldl addPart zeroSpecificity (map CalculateSpecificity (Parts d)))
       \<and> (\<forall>lib seltext. Contains (TrimSpace lib seltext) ''>''
              \<and> (\<exists>p \<in> set (Split (TrimSpace lib seltext) CHR ''>''). TrimSpace lib p \<noteq> [])
              \<longrightarrow> Type (ParseSelector lib seltext) = SelectorChild
                  \<and> CalculateSpecificity (ParseSelector lib seltext) = zeroSpecificity)"
proof -
  have z: "CalculateSpecificity child = zeroSpecificity"
    using assms(1) by (cases child) simp
  have c: "Compare (CalculateSpecificity simple) zeroSpecificity = 1"
    using assms(2) by (rule Compare_simple_zero)
  have e: "cascadeLess a b \<and> overrides b a"
    if "Specificity_e a = CalculateSpecificity child \<and> Specificity_e b = CalculateSpecificity simple
        \<and> Important_e a = Important_e b" for a b
  proof -
    have "Compare (Specificity_e a) (Specificity_e b) = -1"
      using that z Compare_zero_simple [OF assms(2)] by simp
    then have "cascadeLess a b" using that by (simp add: cascadeLess_def)
    then show ?thesis by (simp add: cascadeLess_overrides)
  qed
  have d: "CalculateSpecificity d = foldl addPart zeroSpecificity (map CalculateSpecificity (Parts d))"
    if "Type d = SelectorDescendant" for d
    using that by (cases d) simp
  have p: "Type (ParseSelector lib seltext) = SelectorChild
           \<and> CalculateSpecificity (ParseSelector lib seltext) = zeroSpecificity"
    if "Contains (TrimSpace lib seltext) ''>''
        \<and> (\<exists>p \<in> set (Split (TrimSpace lib seltext) CHR ''>''). TrimSpace lib p \<noteq> [])" for lib seltext
  proof -
    have "filter (\<lambda>p. p \<noteq> []) (map (TrimSpace lib) (Split (TrimSpace lib seltext) CHR ''>'')) \<noteq> []"
      using that by (auto simp: filter_empty_conv)
    then show ?thesis using that by (simp add: ParseSelector_def Let_def)
  qed
  show ?thesis using z c e d p by simp
qed

theorem child_combinator_specificity_witness:
  "Type (ParseSelector asciiLib ''div#main > p.x'') = SelectorChild
   \<and> Type (ParseSelector asciiLib ''p'') = SelectorElement
   \<and> Element (ParseSelector asciiLib ''p'') = ''p''
   \<and> CalculateSpecificity (ParseSelector asciiLib ''div#main > p.x'') = zeroSpecificity
   \<and> Compare (CalculateSpecificity (ParseSelector asciiLib ''p''))
        (CalculateSpecificity (ParseSelector asciiLib ''div#main > p.x'')) = 1
   \<and> CalculateSpecificity (ParseSelector asciiLib ''div#main p.x'')
        = \<lparr>Inline = 0, IDs = 1, Classes = 1, Elements = 2\<rparr>"
proof -
  have h1: "Type (ParseSelector asciiLib ''div#main > p.x'') = SelectorChild"
    by code_simp
  have h2: "Type (ParseSelector asciiLib ''p'') = SelectorElement"
    by code_simp
  have h3: "Element (ParseSelector asciiLib ''p'') = ''p''"
    by code_simp
  have h4: "CalculateSpecificity (ParseSelector asciiLib ''div#main p.x'')
        = \<lparr>Inline = 0, IDs = 1, Classes = 1, Elements = 2\<rparr>"
    by code_simp
  have h5: "Type (ParseSelector asciiLib ''p'') = SelectorID \<or> Type (ParseSelector asciiLib ''p'') = SelectorClass
           \<or> (Type (ParseSelector asciiLib ''p'') = SelectorElement \<and> Element (ParseSelector asciiLib ''p'') \<noteq> []
               \<and> Element (ParseSelector asciiLib ''p'') \<noteq> ''*'')"
    using h2 h3 by simp
  note t = child_combinator_specificity [OF h1 h5]
  have z: "CalculateSpecificity (ParseSelector asciiLib ''div#main > p.x'') = zeroSpecificity"
    using t by (rule conjunct1)
  have c: "Compare (CalculateSpecificity (ParseSelector asciiLib ''p''))
        (CalculateSpecificity (ParseSelector asciiLib ''div#main > p.x'')) = 1"
    by (rule t [THEN conjunct2, THEN conjunct1])
  show ?thesis
    by (intro conjI h1 h2 h3 h4 z c)
qed

section \<open>Properties: lengths\<close>

lemma parseWithUnits_unique:
  assumes "(suffix, unit) \<in> set us"
      and "\<forall>(x, u) \<in> set us. HasSuffix s x \<longrightarrow> (x, u) = (suffix, unit)"
      and "HasSuffix s suffix"
      and "ParseFloat lib (TrimSuffix s suffix) = Some v"
  shows "parseWithUnits lib s us = (\<lparr>Value_len = v, Unit_len = unit\<rparr>, None)"
  using assms(1,2)
proof (induction us)
  case Nil
  then show ?case by simp
next
  case (Cons a us)
  obtain x u where a: "a = (x, u)" by (cases a)
  show ?case
  proof (cases "HasSuffix s x")
    case True
    then have "(x, u) = (suffix, unit)" using Cons.prems(2) a by auto
    then show ?thesis using a assms(3,4) by simp
  next
    case False
    then have "(suffix, unit) \<in> set us" using Cons.prems(1) a assms(3) by auto
    then show ?thesis using Cons.IH Cons.prems(2) a False by auto
  qed
qed

lemma percent_only:
  "\<forall>(x, u) \<in> set unitsTable. HasSuffix ''50%'' x \<longrightarrow> (x, u) = (''%'', UnitPercent)"
  by (simp add: unitsTable_def HasSuffix_def)

lemma Resolve_double:
  "Resolve \<lparr>Value_len = 2 * v, Unit_len = u\<rparr> ctx = 2 * Resolve \<lparr>Value_len = v, Unit_len = u\<rparr> ctx"
  by (cases u) (simp_all add: Resolve_def)

text \<open>
  Claim C8.  For every value, every unit other than \<^verbatim>\<open>auto\<close> and \<^verbatim>\<open>none\<close> and every
  context, resolving the length with twice the value gives twice the result (in
  exact arithmetic).  Parsing \<^verbatim>\<open>50%\<close> gives the length 50 percent without an error,
  whatever the order in which the table of units is walked, and resolving it in
  a context with parent width 200 gives 100.  The facts used about the Go library
  are that lower-casing and trimming leave \<^verbatim>\<open>50%\<close> unchanged and that \<^verbatim>\<open>50\<close> parses
  to the number 50.
\<close>

theorem resolve_linear:
  "(\<forall>v u ctx. u \<noteq> UnitAuto \<and> u \<noteq> UnitNone \<longrightarrow>
       Resolve \<lparr>Value_len = 2 * v, Unit_len = u\<rparr> ctx
         = 2 * Resolve \<lparr>Value_len = v, Unit_len = u\<rparr> ctx)
   \<and> (\<forall>lib us (ctx :: ResolveContext).
         TrimSpace lib (ToLower lib ''50%'') = ''50%'' \<and> ParseFloat lib ''50'' = Some 50
         \<and> set us = set unitsTable \<and> ParentWidth_ctx ctx = 200 \<longrightarrow>
           ParseLength lib us ''50%'' = (\<lparr>Value_len = 50, Unit_len = UnitPercent\<rparr>, None)
           \<and> Resolve (fst (ParseLength lib us ''50%'')) ctx = 100)"
proof (intro conjI allI impI)
  fix v u ctx
  show "Resolve \<lparr>Value_len = 2 * v, Unit_len = u\<rparr> ctx
         = 2 * Resolve \<lparr>Value_len = v, Unit_len = u\<rparr> ctx"
    by (rule Resolve_double)
next
  fix lib :: golib and us and ctx :: ResolveContext
  assume h: "TrimSpace lib (ToLower lib ''50%'') = ''50%'' \<and> ParseFloat lib ''50'' = Some 50
         \<and> set us = set unitsTable \<and> ParentWidth_ctx ctx = 200"
  have mem: "(''%'', UnitPercent) \<in> set us"
    using h by (simp add: unitsTable_def)
  have only: "\<forall>(x, u) \<in> set us. HasSuffix ''50%'' x \<longrightarrow> (x, u) = (''%'', UnitPercent)"
    using h percent_only by simp
  have suf: "HasSuffix ''50%'' ''%''"
    by (simp add: HasSuffix_def)
  have pf: "ParseFloat lib (TrimSuffix ''50%'' ''%'') = Some 50"
    using h by (simp add: TrimSuffix_def HasSuffix_def)
  have pw: "parseWithUnits lib ''50%'' us = (\<lparr>Value_len = 50, Unit_len = UnitPercent\<rparr>, None)"
    by (rule parseWithUnits_unique [OF mem only suf pf])
  show pl: "ParseLength lib us ''50%'' = (\<lparr>Value_len = 50, Unit_len = UnitPercent\<rparr>, None)"
    using h pw by (simp add: ParseLength_def)
  show "Resolve (fst (ParseLength lib us ''50%'')) ctx = 100"
    using h by (simp add: pl Resolve_def)
qed

theorem resolve_linear_witness:
  "UnitEm \<noteq> UnitAuto \<and> UnitEm \<noteq> UnitNone
   \<and> Resolve \<lparr>Value_len = 2 * 3, Unit_len = UnitEm\<rparr> DefaultContext = 96
   \<and> Resolve \<lparr>Value_len = 3, Unit_len = UnitEm\<rparr> DefaultContext = 48
   \<and> TrimSpace asciiLib (ToLower asciiLib ''50%'') = ''50%''
   \<and> ParseFloat asciiLib ''50'' = Some 50
   \<and> ParentWidth_ctx (DefaultContext\<lparr>ParentWidth_ctx := 200\<rparr>) = 200
   \<and> ParseLength asciiLib unitsTable ''50%'' = (\<lparr>Value_len = 50, Unit_len = UnitPercent\<rparr>, None)
   \<and> Resolve (fst (ParseLength asciiLib unitsTable ''50%'')) (DefaultContext\<lparr>ParentWidth_ctx := 200\<rparr>) = 100"
proof -
  have a: "TrimSpace asciiLib (ToLower asciiLib ''50%'') = ''50%''"
    by code_simp
  have b: "ParseFloat asciiLib ''50'' = Some 50"
    by (simp add: asciiLib_def decimalFloat_def unsignedDecimal_def isDigit_def digitsValue_def)
  have c: "ParentWidth_ctx (DefaultContext\<lparr>ParentWidth_ctx := 200\<rparr>) = 200"
    by simp
  have d: "Resolve \<lparr>Value_len = 3, Unit_len = UnitEm\<rparr> DefaultContext = 48"
    by (simp add: Resolve_def DefaultContext_def)
  note t = resolve_linear
  have e: "Resolve \<lparr>Value_len = 2 * 3, Unit_len = UnitEm\<rparr> DefaultContext = 96"
    using t [THEN conjunct1, rule_format, of UnitEm 3 DefaultContext] d by simp
  have f: "ParseLength asciiLib unitsTable ''50%'' = (\<lparr>Value_len = 50, Unit_len = UnitPercent\<rparr>, None)
     \<and> Resolve (fst (ParseLength asciiLib unitsTable ''50%'')) (DefaultContext\<lparr>ParentWidth_ctx := 200\<rparr>) = 100"
    using t [THEN conjunct2, rule_format, of asciiLib unitsTable "DefaultContext\<lparr>ParentWidth_ctx := 200\<rparr>"] a b c
    by blast
  show ?thesis
    by (intro conjI a b c d e f [THEN conjunct1] f [THEN conjunct2]) simp_all
qed

end
